theory Spec2Isabelle
  imports
    Main
    "HOL-Library.Multiset"
    "HOL-Library.Char_ord"
    "HOL-Library.List_Lexorder"
    "HOL-Library.Product_Lexorder"
begin

section \<open>The SQL engine, as far as the program uses it\<close>

text \<open>
  The program sends SQL text to DuckDB. A query is modelled by what it computes on the
  rows of the file it reads: a \<open>WHERE\<close> clause is a predicate on rows, \<open>ORDER BY\<close> a sort,
  \<open>SELECT\<close> a map. A column value is an \<open>option\<close>, \<open>None\<close> being SQL's \<open>NULL\<close>. A file
  that does not exist makes the read raise; a column that the table does not have makes
  the statement raise before any row is read.
\<close>

datatype error =
    IOException
  | BinderException
  | CatalogException
  | RangeError
  | TypeError
  | ZeroDivisionError

text \<open>Reading \<open>FROM '<path>.parquet'\<close>: the rows of the file, or an I/O error when it is absent.\<close>

definition read_parquet :: "'r list option \<Rightarrow> error + 'r list" where
  "read_parquet f = (case f of None \<Rightarrow> Inl IOException | Some rs \<Rightarrow> Inr rs)"

text \<open>
  Comparisons in a \<open>WHERE\<close> clause keep a row only when they are true; on \<open>NULL\<close> they
  are unknown and the row is not kept.
\<close>

definition sql_ge :: "int option \<Rightarrow> int \<Rightarrow> bool" where
  "sql_ge v k = (case v of None \<Rightarrow> False | Some x \<Rightarrow> k \<le> x)"

definition sql_le :: "int option \<Rightarrow> int \<Rightarrow> bool" where
  "sql_le v k = (case v of None \<Rightarrow> False | Some x \<Rightarrow> x \<le> k)"

definition sql_eq :: "'a option \<Rightarrow> 'a \<Rightarrow> bool" where
  "sql_eq v k = (case v of None \<Rightarrow> False | Some x \<Rightarrow> x = k)"

text \<open>
  An integer that the program formats into the SQL text is a literal the engine has to
  type before it compares it with a column. A literal of up to 64 bits is an integer to
  the engine and the comparison is made. A literal from \<open>2 ^ 127\<close> on fits none of its
  signed integer types and the statement raises (DuckDB reports a conversion or an
  out-of-range error; the two are one error here). What the engine does with the other
  literals, those wider than 64 bits and below \<open>2 ^ 127\<close>, the negative ones included, is left
  to it: the parameter \<open>wide\<close> says which of them it accepts.
\<close>

definition int_literal :: "(int \<Rightarrow> bool) \<Rightarrow> int \<Rightarrow> error option" where
  "int_literal wide k =
     (if - (2 ^ 63) \<le> k \<and> k < 2 ^ 63 then None
      else if k < 2 ^ 127 \<and> wide k then None
      else Some RangeError)"

text \<open>The literals of a statement: the first one refused decides.\<close>

definition check_literals :: "(int \<Rightarrow> bool) \<Rightarrow> int list \<Rightarrow> error option" where
  "check_literals wide ks = (case List.map_filter (int_literal wide) ks of [] \<Rightarrow> None | e # es \<Rightarrow> Some e)"

text \<open>
  \<open>ORDER BY\<close> puts \<open>NULL\<close> last, ascending or descending (DuckDB's default). The sort
  key of a nullable value is the pair of its null flag and its value. Rows with equal keys
  keep their order here; SQL leaves that order open, and no theorem below depends on it.
\<close>

definition nulls_last :: "'a \<Rightarrow> 'a option \<Rightarrow> bool \<times> 'a" where
  "nulls_last d v = (case v of None \<Rightarrow> (True, d) | Some x \<Rightarrow> (False, x))"

definition asc :: "int option \<Rightarrow> bool \<times> int" where
  "asc v = nulls_last 0 v"

definition desc :: "int option \<Rightarrow> bool \<times> int" where
  "desc v = nulls_last 0 (map_option uminus v)"

definition asc_text :: "string option \<Rightarrow> bool \<times> string" where
  "asc_text v = nulls_last [] v"

text \<open>\<open>MAX(col)\<close>: the greatest non-null value, \<open>NULL\<close> when there is none.\<close>

definition sql_max :: "int option list \<Rightarrow> int option" where
  "sql_max vs = (case List.map_filter (\<lambda>v. v) vs of [] \<Rightarrow> None | x # xs \<Rightarrow> Some (fold max xs x))"

text \<open>\<open>SELECT DISTINCT col ... WHERE col IS NOT NULL ORDER BY col\<close>.\<close>

definition distinct_not_null :: "('a::linorder) option list \<Rightarrow> 'a list" where
  "distinct_not_null vs = sort (remdups (List.map_filter (\<lambda>v. v) vs))"

text \<open>
  A string enters the SQL text between single quotes after \<open>s.replace("'", "''")\<close>; the
  engine reads a doubled quote inside a literal as one quote.
\<close>

definition quote :: char where
  "quote = CHR 0x27"

fun replace_quotes :: "string \<Rightarrow> string" where
  "replace_quotes [] = []"
| "replace_quotes (c # cs) = (if c = quote then quote # quote # replace_quotes cs else c # replace_quotes cs)"

fun literal_value :: "string \<Rightarrow> string" where
  "literal_value (a # b # cs) =
     (if a = quote \<and> b = quote then quote # literal_value cs else a # literal_value (b # cs))"
| "literal_value cs = cs"

section \<open>The derived datasets\<close>

record trend_row =
  tr_year :: "int option"
  tr_total :: "int option"
  tr_sheltered :: "int option"
  tr_unsheltered :: "int option"

record subpop_row =
  sp_year :: "int option"
  sp_group_name :: "string option"
  sp_count :: "int option"

record geo_row =
  g_year :: "int option"
  g_region :: "string option"
  g_total :: "int option"
  g_sheltered :: "int option"
  g_unsheltered :: "int option"

text \<open>The amount is a sum the engine computes; its number type \<open>'a\<close> is left open.\<close>

record 'a spending_row =
  fiscal_year :: "int option"
  amount :: "'a option"

text \<open>
  The directory \<open>data/aggregated\<close>: each of the four parquet files is its list of rows, or
  \<open>None\<close> when the file does not exist.
\<close>

record 'a agg_dir =
  pit_trends :: "trend_row list option"
  pit_subpopulations :: "subpop_row list option"
  pit_geography :: "geo_row list option"
  homelessness_spending :: "'a spending_row list option"

section \<open>The query layer (\<open>api/queries.py\<close>)\<close>

text \<open>
  What a query operation can touch: the aggregated files and the connections it has
  opened and not closed. \<open>duckdb.connect()\<close> opens one, \<open>con.close()\<close> closes one.
\<close>

record 'a qstate =
  agg :: "'a agg_dir"
  open_cons :: nat

definition connect :: "'a qstate \<Rightarrow> 'a qstate" where
  "connect s = s\<lparr>open_cons := Suc (open_cons s)\<rparr>"

definition close :: "'a qstate \<Rightarrow> 'a qstate" where
  "close s = s\<lparr>open_cons := open_cons s - 1\<rparr>"

text \<open>\<open>_where\<close> and \<open>_q\<close> build the text of a \<open>WHERE\<close> clause: here the list of its conditions.\<close>

definition where_clause :: "int option \<Rightarrow> int option \<Rightarrow> (int option \<Rightarrow> bool) list" where
  "where_clause year_min year_max =
     (case year_min of None \<Rightarrow> [] | Some lo \<Rightarrow> [\<lambda>y. sql_ge y lo]) @
     (case year_max of None \<Rightarrow> [] | Some hi \<Rightarrow> [\<lambda>y. sql_le y hi])"

definition q_and :: "('r \<Rightarrow> bool) list \<Rightarrow> ('r \<Rightarrow> bool) \<Rightarrow> ('r \<Rightarrow> bool) list" where
  "q_and w condition = w @ [condition]"

definition holds :: "('r \<Rightarrow> bool) list \<Rightarrow> 'r \<Rightarrow> bool" where
  "holds w r = list_all (\<lambda>c. c r) w"

text \<open>
  \<open>_run\<close>: connect, execute, close, return the rows. When \<open>execute\<close> raises, the
  \<open>close\<close> on the next line is not reached.
\<close>

definition run_sql :: "('a agg_dir \<Rightarrow> error + 'r list) \<Rightarrow> 'a qstate \<Rightarrow> (error + 'r list) \<times> 'a qstate" where
  "run_sql sql s =
     (let con = connect s in
      case sql (agg con) of
        Inl e \<Rightarrow> (Inl e, con)
      | Inr df \<Rightarrow> (Inr df, close con))"

subsection \<open>1. Filter options\<close>

record filter_options =
  years :: "int list"
  regions :: "string list"

definition get_filter_options :: "'a qstate \<Rightarrow> (error + filter_options) \<times> 'a qstate" where
  "get_filter_options s =
     (let con = connect s in
      case read_parquet (pit_trends (agg con)) of
        Inl e \<Rightarrow> (Inl e, con)
      | Inr trows \<Rightarrow>
          (let ys = sort (distinct_not_null (map tr_year trows));
               rs = (case read_parquet (pit_geography (agg con)) of
                       Inl e \<Rightarrow> []
                     | Inr grows \<Rightarrow> distinct_not_null (map g_region grows))
           in (Inr \<lparr>years = ys, regions = rs\<rparr>, close con)))"

subsection \<open>2. Overview\<close>

text \<open>
  \<open>yoy_pct\<close> is a Python float. Its three operations are parameters: \<open>a / b\<close> on two
  integers with \<open>b\<close> not zero, a float times an integer, and \<open>round(x, n)\<close>.
\<close>

record 'f float_ops =
  truediv :: "int \<Rightarrow> int \<Rightarrow> 'f"
  times_int :: "'f \<Rightarrow> int \<Rightarrow> 'f"
  round_to :: "'f \<Rightarrow> int \<Rightarrow> 'f"

text \<open>
  The float expression as the source writes it, each operation building a term: the
  instance used where a run needs concrete floats.
\<close>

datatype py_float = TrueDiv int int | Times py_float int | Round py_float int

definition float_expr :: "py_float float_ops" where
  "float_expr = \<lparr>truediv = TrueDiv, times_int = Times, round_to = Round\<rparr>"

record 'f overview =
  ov_year :: int
  ov_total :: int
  ov_sheltered :: int
  ov_unsheltered :: int
  prior_year_total :: "int option"
  yoy_change :: "int option"
  yoy_pct :: "'f option"

text \<open>\<open>int(x)\<close> on a value fetched from a row: \<open>None\<close> raises \<open>TypeError\<close>.\<close>

definition py_int :: "int option \<Rightarrow> error + int" where
  "py_int v = (case v of None \<Rightarrow> Inl TypeError | Some x \<Rightarrow> Inr x)"

text \<open>
  \<open>execute(... WHERE year = y).fetchone()\<close>: the statement raises when the engine refuses
  the literal; else the result is the first row of that year, or \<open>None\<close>.
\<close>

definition fetchone_year :: "(int \<Rightarrow> bool) \<Rightarrow> int \<Rightarrow> trend_row list \<Rightarrow> error + trend_row option" where
  "fetchone_year wide y rows =
     (case int_literal wide y of
        Some e \<Rightarrow> Inl e
      | None \<Rightarrow> Inr (find (\<lambda>r. sql_eq (tr_year r) y) rows))"

text \<open>
  \<open>get_overview\<close> sends up to three statements, all reading the trend file: the file is
  read once here, and each statement is its own binding. The part after \<open>con.close()\<close>
  builds the answer from the two rows fetched.
\<close>

definition overview_of :: "'f float_ops \<Rightarrow> int \<Rightarrow> trend_row option \<Rightarrow> trend_row option \<Rightarrow> error + 'f overview" where
  "overview_of fo year current prior =
     (case current of
        None \<Rightarrow> Inr \<lparr>ov_year = year, ov_total = 0, ov_sheltered = 0, ov_unsheltered = 0,
                     prior_year_total = None, yoy_change = None, yoy_pct = None\<rparr>
      | Some c \<Rightarrow>
         (case py_int (tr_total c) of
            Inl e \<Rightarrow> Inl e
          | Inr total' \<Rightarrow>
             (case py_int (tr_sheltered c) of
                Inl e \<Rightarrow> Inl e
              | Inr sheltered \<Rightarrow>
                 (case py_int (tr_unsheltered c) of
                    Inl e \<Rightarrow> Inl e
                  | Inr unsheltered \<Rightarrow>
                     (let result = \<lparr>ov_year = year, ov_total = total', ov_sheltered = sheltered,
                                    ov_unsheltered = unsheltered,
                                    prior_year_total = None, yoy_change = None, yoy_pct = None\<rparr>
                      in (case prior of
                            None \<Rightarrow> Inr result
                          | Some p \<Rightarrow>
                             (case py_int (tr_total p) of
                                Inl e \<Rightarrow> Inl e
                              | Inr prior_total \<Rightarrow>
                                 (if prior_total = 0 then Inl ZeroDivisionError
                                  else Inr (result\<lparr>prior_year_total := Some prior_total,
                                      yoy_change := Some (total' - prior_total),
                                      yoy_pct := Some (round_to fo
                                        (times_int fo (truediv fo (total' - prior_total) prior_total) 100) 1)\<rparr>)))))))))"

definition get_overview ::
    "'f float_ops \<Rightarrow> (int \<Rightarrow> bool) \<Rightarrow> int option \<Rightarrow> 'a qstate \<Rightarrow> (error + 'f overview) \<times> 'a qstate" where
  "get_overview fo wide year s =
     (let con = connect s in
      case read_parquet (pit_trends (agg con)) of
        Inl e \<Rightarrow> (Inl e, con)
      | Inr rows \<Rightarrow>
         (case py_int (case year of None \<Rightarrow> sql_max (map tr_year rows) | Some y \<Rightarrow> Some y) of
            Inl e \<Rightarrow> (Inl e, con)
          | Inr y \<Rightarrow>
             (case fetchone_year wide y rows of
                Inl e \<Rightarrow> (Inl e, con)
              | Inr current \<Rightarrow>
                 (case fetchone_year wide (y - 1) rows of
                    Inl e \<Rightarrow> (Inl e, con)
                  | Inr prior \<Rightarrow> (overview_of fo y current prior, close con)))))"

subsection \<open>3. PIT trends\<close>

definition get_pit_trends ::
    "(int \<Rightarrow> bool) \<Rightarrow> int \<Rightarrow> int \<Rightarrow> 'a qstate \<Rightarrow> (error + trend_row list) \<times> 'a qstate" where
  "get_pit_trends wide year_min year_max =
     (let w = where_clause (Some year_min) (Some year_max) in
      run_sql (\<lambda>d. case read_parquet (pit_trends d) of
                   Inl e \<Rightarrow> Inl e
                 | Inr rows \<Rightarrow>
                    (case check_literals wide [year_min, year_max] of
                       Some e \<Rightarrow> Inl e
                     | None \<Rightarrow>
                        Inr (sort_key (\<lambda>r. asc (tr_year r)) (filter (\<lambda>r. holds w (tr_year r)) rows)))))"

subsection \<open>4. Subpopulations\<close>

definition get_subpopulations ::
    "(int \<Rightarrow> bool) \<Rightarrow> int \<Rightarrow> int \<Rightarrow> string option \<Rightarrow> 'a qstate \<Rightarrow> (error + subpop_row list) \<times> 'a qstate" where
  "get_subpopulations wide year_min year_max group' =
     (let w0 = map (\<lambda>c. \<lambda>r. c (sp_year r)) (where_clause (Some year_min) (Some year_max));
          w = (case group' of
                 None \<Rightarrow> w0
               | Some g \<Rightarrow> if g = [] then w0
                           else q_and w0 (\<lambda>r. sql_eq (sp_group_name r) (literal_value (replace_quotes g))))
      in run_sql (\<lambda>d. case read_parquet (pit_subpopulations d) of
                      Inl e \<Rightarrow> Inl e
                    | Inr rows \<Rightarrow>
                       (case check_literals wide [year_min, year_max] of
                          Some e \<Rightarrow> Inl e
                        | None \<Rightarrow>
                           Inr (sort_key (\<lambda>r. (asc (sp_year r), asc_text (sp_group_name r)))
                                  (filter (holds w) rows)))))"

subsection \<open>5. Geography\<close>

definition get_geography ::
    "(int \<Rightarrow> bool) \<Rightarrow> int option \<Rightarrow> string option \<Rightarrow> 'a qstate \<Rightarrow> (error + geo_row list) \<times> 'a qstate" where
  "get_geography wide year region s =
     (let con = connect s in
      case read_parquet (pit_geography (agg con)) of
        Inl e \<Rightarrow> (Inl e, con)
      | Inr rows \<Rightarrow>
         (case py_int (case year of None \<Rightarrow> sql_max (map g_year rows) | Some y \<Rightarrow> Some y) of
            Inl e \<Rightarrow> (Inl e, con)
          | Inr y \<Rightarrow>
             (let w0 = [\<lambda>r. sql_eq (g_year r) y];
                  w = (case region of
                         None \<Rightarrow> w0
                       | Some rg \<Rightarrow> if rg = [] then w0
                                    else w0 @ [\<lambda>r. sql_eq (g_region r) (literal_value (replace_quotes rg))])
              in (case int_literal wide y of
                    Some e \<Rightarrow> (Inl e, con)
                  | None \<Rightarrow>
                     (Inr (sort_key (\<lambda>r. desc (g_total r)) (filter (holds w) rows)), close con)))))"

subsection \<open>6. Spending trends\<close>

definition get_spending_trends ::
    "(int \<Rightarrow> bool) \<Rightarrow> int \<Rightarrow> int \<Rightarrow> 'a qstate \<Rightarrow> (error + 'a spending_row list) \<times> 'a qstate" where
  "get_spending_trends wide fy_min fy_max =
     run_sql (\<lambda>d. case read_parquet (homelessness_spending d) of
                  Inl e \<Rightarrow> Inl e
                | Inr rows \<Rightarrow>
                   (case check_literals wide [fy_min, fy_max] of
                      Some e \<Rightarrow> Inl e
                    | None \<Rightarrow>
                       Inr (sort_key (\<lambda>r. asc (fiscal_year r))
                             (filter (\<lambda>r. sql_ge (fiscal_year r) fy_min \<and> sql_le (fiscal_year r) fy_max)
                                rows))))"

text \<open>The defaults of the signatures.\<close>

definition get_pit_trends_default :: "(int \<Rightarrow> bool) \<Rightarrow> 'a qstate \<Rightarrow> (error + trend_row list) \<times> 'a qstate" where
  "get_pit_trends_default wide = get_pit_trends wide 2011 2024"

definition get_spending_trends_default ::
    "(int \<Rightarrow> bool) \<Rightarrow> 'a qstate \<Rightarrow> (error + 'a spending_row list) \<times> 'a qstate" where
  "get_spending_trends_default wide = get_spending_trends wide 2021 2026"

section \<open>The aggregation builder (\<open>pipeline/transform.py\<close>)\<close>

subsection \<open>Raw tables and the engine's casts\<close>

text \<open>
  A raw table is the column names of a header and rows of cells, each cell a text or
  \<open>NULL\<close>: a CSV file as written, or a table of the database. Three things are the
  engine's and are parameters. \<open>read_csv(header=true, ignore_errors=true)\<close> detects a
  type for each column and skips the rows it cannot parse with these types:
  \<open>csv_rows\<close> gives the rows it yields for a file. \<open>TRY_CAST(x AS INTEGER)\<close> on a
  text and \<open>SUM\<close> over the amounts of a group are the other two. The cast of \<open>NULL\<close> is
  \<open>NULL\<close>.
\<close>

type_synonym cell = "string option"

record raw_table =
  tbl_columns :: "string list"
  tbl_rows :: "cell list list"

record 'a engine =
  csv_rows :: "raw_table \<Rightarrow> cell list list"
  try_cast_integer :: "string \<Rightarrow> int option"
  sum_amount :: "'a option list \<Rightarrow> 'a option"

text \<open>The table \<open>read_csv\<close> makes of a file: the columns of its header, the rows the engine yields.\<close>

definition read_csv :: "'a engine \<Rightarrow> raw_table \<Rightarrow> raw_table" where
  "read_csv eng f = \<lparr>tbl_columns = tbl_columns f, tbl_rows = csv_rows eng f\<rparr>"

definition try_cast :: "'a engine \<Rightarrow> cell \<Rightarrow> int option" where
  "try_cast eng c = (case c of None \<Rightarrow> None | Some text \<Rightarrow> try_cast_integer eng text)"

text \<open>\<open>SUM\<close> over integer amounts, for concrete runs: nulls are skipped, no value gives \<open>NULL\<close>.\<close>

definition sum_int :: "int option list \<Rightarrow> int option" where
  "sum_int vs = (case List.map_filter (\<lambda>v. v) vs of [] \<Rightarrow> None | x # xs \<Rightarrow> Some (sum_list (x # xs)))"

text \<open>The engine finds a column by its name without regard to the case of the letters.\<close>

definition lower_char :: "char \<Rightarrow> char" where
  "lower_char c =
     (case map_of (zip ''ABCDEFGHIJKLMNOPQRSTUVWXYZ'' ''abcdefghijklmnopqrstuvwxyz'') c of
        None \<Rightarrow> c
      | Some l \<Rightarrow> l)"

definition lower_name :: "string \<Rightarrow> string" where
  "lower_name name = map lower_char name"

text \<open>The value of the column \<open>name\<close> in a row of the table.\<close>

definition cell_of :: "raw_table \<Rightarrow> string \<Rightarrow> cell list \<Rightarrow> cell" where
  "cell_of t name row =
     (case map_of (zip (map lower_name (tbl_columns t)) row) (lower_name name) of
        None \<Rightarrow> None
      | Some v \<Rightarrow> v)"

subsection \<open>Files, database and output\<close>

record processed_row =
  p_year :: "int option"
  p_total_homeless :: "int option"
  p_sheltered :: "int option"
  p_unsheltered :: "int option"
  p_chronically_homeless :: "int option"
  p_veterans :: "int option"
  p_families_persons :: "int option"
  p_youth_under25 :: "int option"
  p_first_time_homeless :: "int option"

record 'a budget_row =
  b_dept_name :: "string option"
  b_fiscal_year :: "int option"
  b_amount :: "'a option"
  b_budget_cycle :: "string option"
  b_revenue_or_expense :: "string option"
  b_source :: "string option"

text \<open>
  What a run of the builder reads and writes: the CSV files of \<open>data/raw\<close> by file name,
  the budget parquet of the other project, the tables of the database file by table name,
  \<open>data/processed/pit_data.parquet\<close> and the directory \<open>data/aggregated\<close>. A file or a
  table that does not exist is \<open>None\<close>.
\<close>

record 'a world =
  raw_dir :: "string \<Rightarrow> raw_table option"
  budget_parquet :: "'a budget_row list option"
  db :: "string \<Rightarrow> raw_table option"
  processed_dir :: "processed_row list option"
  aggregated_dir :: "'a agg_dir"

text \<open>The lines a run prints. Row counts are kept, file sizes are not.\<close>

datatype log_line =
    WarnNotFound string
  | Loaded string nat
  | ExportedProcessed
  | Agg string
  | SkipSpending
  | TransformComplete

text \<open>
  A step returns what it printed, the exception it raised if any, and the world it
  leaves. After an exception the following steps do not run; what was written before stays.
\<close>

type_synonym 'a outcome = "(log_line list \<times> error option) \<times> 'a world"

definition and_then :: "'a outcome \<Rightarrow> ('a world \<Rightarrow> 'a outcome) \<Rightarrow> 'a outcome" where
  "and_then r step =
     (case r of
        ((out, Some e), w) \<Rightarrow> ((out, Some e), w)
      | ((out, None), w) \<Rightarrow> (case step w of ((out', e'), w') \<Rightarrow> ((out @ out', e'), w')))"

subsection \<open>\<open>_load_raw_tables\<close>\<close>

definition csv_files :: "(string \<times> string) list" where
  "csv_files =
     [(''raw_pit_counts'', ''pit_counts.csv''),
      (''raw_pit_subpopulations'', ''pit_subpopulations.csv''),
      (''raw_pit_geography'', ''pit_geography.csv'')]"

text \<open>
  One turn of the loop. \<open>DROP TABLE IF EXISTS\<close> removes the table, \<open>CREATE TABLE\<close> then
  adds it: for a missing file with the single column \<open>dummy\<close> and no row, for a file
  with what \<open>read_csv\<close> makes of it.
\<close>

definition load_one ::
    "'a engine \<Rightarrow> string \<times> string \<Rightarrow> log_line list \<times> 'a world \<Rightarrow> log_line list \<times> 'a world" where
  "load_one eng entry lw =
     (case entry of (name, path) \<Rightarrow>
      case lw of (out, w) \<Rightarrow>
       (case raw_dir w path of
          None \<Rightarrow>
            (out @ [WarnNotFound path],
             w\<lparr>db := ((db w)(name := None))(name \<mapsto> \<lparr>tbl_columns = [''dummy''], tbl_rows = []\<rparr>)\<rparr>)
        | Some f \<Rightarrow>
            (out @ [Loaded name (length (tbl_rows (read_csv eng f)))],
             w\<lparr>db := ((db w)(name := None))(name \<mapsto> read_csv eng f)\<rparr>)))"

definition load_raw_tables :: "'a engine \<Rightarrow> 'a world \<Rightarrow> 'a outcome" where
  "load_raw_tables eng w =
     (case fold (load_one eng) csv_files ([], w) of (out, w') \<Rightarrow> ((out, None), w'))"

subsection \<open>The \<open>SELECT\<close> statements\<close>

text \<open>
  \<open>FROM name\<close> with the columns the statement names: the table must exist and have
  each of them, whatever the case of its letters, or the statement raises before it reads
  a row.
\<close>

definition from_table :: "'a world \<Rightarrow> string \<Rightarrow> string list \<Rightarrow> error + raw_table" where
  "from_table w name cols =
     (case db w name of
        None \<Rightarrow> Inl CatalogException
      | Some t \<Rightarrow>
          if set (map lower_name cols) \<subseteq> set (map lower_name (tbl_columns t)) then Inr t
          else Inl BinderException)"

text \<open>
  In each statement \<open>ORDER BY year\<close> names the output column, the cast year, and
  \<open>WHERE TRY_CAST(year AS INTEGER) IS NOT NULL\<close> keeps the rows whose year casts.
\<close>

definition processed_select :: "'a engine \<Rightarrow> raw_table \<Rightarrow> processed_row list" where
  "processed_select eng t =
     sort_key (\<lambda>r. asc (p_year r))
       (map (\<lambda>row. \<lparr>p_year = try_cast eng (cell_of t ''year'' row),
                    p_total_homeless = try_cast eng (cell_of t ''total_homeless'' row),
                    p_sheltered = try_cast eng (cell_of t ''sheltered'' row),
                    p_unsheltered = try_cast eng (cell_of t ''unsheltered'' row),
                    p_chronically_homeless = try_cast eng (cell_of t ''chronically_homeless'' row),
                    p_veterans = try_cast eng (cell_of t ''veterans'' row),
                    p_families_persons = try_cast eng (cell_of t ''families_persons'' row),
                    p_youth_under25 = try_cast eng (cell_of t ''youth_under25'' row),
                    p_first_time_homeless = try_cast eng (cell_of t ''first_time_homeless'' row)\<rparr>)
          (filter (\<lambda>row. try_cast eng (cell_of t ''year'' row) \<noteq> None) (tbl_rows t)))"

definition pit_trends_select :: "'a engine \<Rightarrow> raw_table \<Rightarrow> trend_row list" where
  "pit_trends_select eng t =
     sort_key (\<lambda>r. asc (tr_year r))
       (map (\<lambda>row. \<lparr>tr_year = try_cast eng (cell_of t ''year'' row),
                    tr_total = try_cast eng (cell_of t ''total_homeless'' row),
                    tr_sheltered = try_cast eng (cell_of t ''sheltered'' row),
                    tr_unsheltered = try_cast eng (cell_of t ''unsheltered'' row)\<rparr>)
          (filter (\<lambda>row. try_cast eng (cell_of t ''year'' row) \<noteq> None) (tbl_rows t)))"

definition pit_subpopulations_select :: "'a engine \<Rightarrow> raw_table \<Rightarrow> subpop_row list" where
  "pit_subpopulations_select eng t =
     sort_key (\<lambda>r. (asc (sp_year r), asc_text (sp_group_name r)))
       (map (\<lambda>row. \<lparr>sp_year = try_cast eng (cell_of t ''year'' row),
                    sp_group_name = cell_of t ''group_name'' row,
                    sp_count = try_cast eng (cell_of t ''count'' row)\<rparr>)
          (filter (\<lambda>row. try_cast eng (cell_of t ''year'' row) \<noteq> None \<and>
                          try_cast eng (cell_of t ''count'' row) \<noteq> None) (tbl_rows t)))"

definition pit_geography_select :: "'a engine \<Rightarrow> raw_table \<Rightarrow> geo_row list" where
  "pit_geography_select eng t =
     sort_key (\<lambda>r. (asc (g_year r), asc_text (g_region r)))
       (map (\<lambda>row. \<lparr>g_year = try_cast eng (cell_of t ''year'' row),
                    g_region = cell_of t ''region'' row,
                    g_total = try_cast eng (cell_of t ''total'' row),
                    g_sheltered = try_cast eng (cell_of t ''sheltered'' row),
                    g_unsheltered = try_cast eng (cell_of t ''unsheltered'' row)\<rparr>)
          (filter (\<lambda>row. try_cast eng (cell_of t ''year'' row) \<noteq> None) (tbl_rows t)))"

text \<open>
  The spending statement: the rows of the department, budget cycle, kind and source,
  grouped by fiscal year (a null year is a group of its own), one sum per group.
\<close>

definition spending_select :: "'a engine \<Rightarrow> 'a budget_row list \<Rightarrow> 'a spending_row list" where
  "spending_select eng brows =
     (let sel = filter (\<lambda>r. sql_eq (b_dept_name r) ''Homelessness Strategies & Solutions'' \<and>
                             sql_eq (b_budget_cycle r) ''adopted'' \<and>
                             sql_eq (b_revenue_or_expense r) ''Expense'' \<and>
                             sql_eq (b_source r) ''budget'') brows
      in sort_key (\<lambda>r. asc (fiscal_year r))
           (map (\<lambda>fy. \<lparr>fiscal_year = fy,
                       amount = sum_amount eng (map b_amount (filter (\<lambda>r. b_fiscal_year r = fy) sel))\<rparr>)
              (remdups (map b_fiscal_year sel))))"

subsection \<open>\<open>_export_processed\<close>, \<open>_build_aggregations\<close>, \<open>_build_spending_crossref\<close>\<close>

definition export_processed :: "'a engine \<Rightarrow> 'a world \<Rightarrow> 'a outcome" where
  "export_processed eng w =
     (case from_table w ''raw_pit_counts''
             [''year'', ''total_homeless'', ''sheltered'', ''unsheltered'', ''chronically_homeless'',
              ''veterans'', ''families_persons'', ''youth_under25'', ''first_time_homeless''] of
        Inl e \<Rightarrow> (([], Some e), w)
      | Inr t \<Rightarrow> (([ExportedProcessed], None), w\<lparr>processed_dir := Some (processed_select eng t)\<rparr>))"

definition copy_pit_trends :: "'a engine \<Rightarrow> 'a world \<Rightarrow> 'a outcome" where
  "copy_pit_trends eng w =
     (case from_table w ''raw_pit_counts'' [''year'', ''total_homeless'', ''sheltered'', ''unsheltered''] of
        Inl e \<Rightarrow> (([], Some e), w)
      | Inr t \<Rightarrow>
          (([Agg ''pit_trends''], None),
           w\<lparr>aggregated_dir := (aggregated_dir w)\<lparr>pit_trends := Some (pit_trends_select eng t)\<rparr>\<rparr>))"

definition copy_pit_subpopulations :: "'a engine \<Rightarrow> 'a world \<Rightarrow> 'a outcome" where
  "copy_pit_subpopulations eng w =
     (case from_table w ''raw_pit_subpopulations'' [''year'', ''group_name'', ''count''] of
        Inl e \<Rightarrow> (([], Some e), w)
      | Inr t \<Rightarrow>
          (([Agg ''pit_subpopulations''], None),
           w\<lparr>aggregated_dir :=
               (aggregated_dir w)\<lparr>pit_subpopulations := Some (pit_subpopulations_select eng t)\<rparr>\<rparr>))"

definition copy_pit_geography :: "'a engine \<Rightarrow> 'a world \<Rightarrow> 'a outcome" where
  "copy_pit_geography eng w =
     (case from_table w ''raw_pit_geography''
             [''year'', ''region'', ''total'', ''sheltered'', ''unsheltered''] of
        Inl e \<Rightarrow> (([], Some e), w)
      | Inr t \<Rightarrow>
          (([Agg ''pit_geography''], None),
           w\<lparr>aggregated_dir := (aggregated_dir w)\<lparr>pit_geography := Some (pit_geography_select eng t)\<rparr>\<rparr>))"

definition build_aggregations :: "'a engine \<Rightarrow> 'a world \<Rightarrow> 'a outcome" where
  "build_aggregations eng w =
     and_then (and_then (copy_pit_trends eng w) (copy_pit_subpopulations eng)) (copy_pit_geography eng)"

definition build_spending_crossref :: "'a engine \<Rightarrow> 'a world \<Rightarrow> 'a outcome" where
  "build_spending_crossref eng w =
     (case budget_parquet w of
        None \<Rightarrow> (([SkipSpending], None), w)
      | Some brows \<Rightarrow>
          (([Agg ''homelessness_spending''], None),
           w\<lparr>aggregated_dir :=
               (aggregated_dir w)\<lparr>homelessness_spending := Some (spending_select eng brows)\<rparr>\<rparr>))"

subsection \<open>\<open>transform\<close>\<close>

text \<open>
  The four steps in order, then the final line. Creating the directories and opening and
  closing the connection to the database file are left out.
\<close>

definition transform :: "'a engine \<Rightarrow> 'a world \<Rightarrow> 'a outcome" where
  "transform eng w =
     and_then
       (and_then
         (and_then
           (and_then (load_raw_tables eng w) (export_processed eng))
           (build_aggregations eng))
         (build_spending_crossref eng))
       (\<lambda>w'. (([TransformComplete], None), w'))"

section \<open>Notation for concrete runs\<close>

text \<open>Short forms of rows and of a state with no open connection, used in the concrete runs below.\<close>

abbreviation trow :: "int \<Rightarrow> int option \<Rightarrow> int option \<Rightarrow> int option \<Rightarrow> trend_row" where
  "trow y t sh un \<equiv> \<lparr>tr_year = Some y, tr_total = t, tr_sheltered = sh, tr_unsheltered = un\<rparr>"

abbreviation grow :: "int \<Rightarrow> string \<Rightarrow> int option \<Rightarrow> geo_row" where
  "grow y rg t \<equiv> \<lparr>g_year = Some y, g_region = Some rg, g_total = t, g_sheltered = None, g_unsheltered = None\<rparr>"

abbreviation files ::
    "trend_row list option \<Rightarrow> geo_row list option \<Rightarrow> int spending_row list option \<Rightarrow> int qstate" where
  "files t g sp \<equiv>
     \<lparr>agg = \<lparr>pit_trends = t, pit_subpopulations = None, pit_geography = g, homelessness_spending = sp\<rparr>,
      open_cons = 0\<rparr>"

text \<open>
  The two extreme engines for the literals between 64 and 127 bits: one accepts them all,
  one refuses them all.
\<close>

abbreviation all_wide :: "int \<Rightarrow> bool" where
  "all_wide \<equiv> (\<lambda>k. True)"

abbreviation no_wide :: "int \<Rightarrow> bool" where
  "no_wide \<equiv> (\<lambda>k. False)"

text \<open>
  For the builder: an engine that yields every row of a file and whose cast knows a few
  numerals; a raw directory with the counts and subpopulations files and without the
  geography file, and one with all three files; the table and the printed line
  \<open>_load_raw_tables\<close> gives for a file; the steps of \<open>transform\<close> after the load.
\<close>

abbreviation engine0 :: "int engine" where
  "engine0 \<equiv> \<lparr>csv_rows = tbl_rows,
              try_cast_integer = map_of [(''2023'', 2023), (''2024'', 2024), (''7'', 7), (''4'', 4), (''3'', 3)],
              sum_amount = sum_int\<rparr>"

abbreviation no_files :: "int agg_dir" where
  "no_files \<equiv> \<lparr>pit_trends = None, pit_subpopulations = None, pit_geography = None, homelessness_spending = None\<rparr>"

abbreviation counts_csv :: raw_table where
  "counts_csv \<equiv> \<lparr>tbl_columns = [''year'', ''total_homeless'', ''sheltered'', ''unsheltered'',
        ''chronically_homeless'', ''veterans'', ''families_persons'', ''youth_under25'', ''first_time_homeless''],
      tbl_rows = [[Some ''2024'', Some ''7'', Some ''4'', Some ''3'', None, None, None, None, None]]\<rparr>"

abbreviation subpops_csv :: raw_table where
  "subpops_csv \<equiv> \<lparr>tbl_columns = [''year'', ''group_name'', ''count''],
      tbl_rows = [[Some ''2024'', Some ''Veterans'', Some ''3'']]\<rparr>"

abbreviation world0 :: "int world" where
  "world0 \<equiv> \<lparr>raw_dir = [''pit_counts.csv'' \<mapsto> counts_csv, ''pit_subpopulations.csv'' \<mapsto> subpops_csv],
             budget_parquet = None, db = Map.empty, processed_dir = None, aggregated_dir = no_files\<rparr>"

abbreviation geography_csv :: raw_table where
  "geography_csv \<equiv> \<lparr>tbl_columns = [''Year'', ''region'', ''total'', ''sheltered'', ''unsheltered''],
      tbl_rows = [[Some ''2024'', Some ''North'', Some ''7'', Some ''x'', Some ''3'']]\<rparr>"

abbreviation na_csv :: raw_table where
  "na_csv \<equiv> \<lparr>tbl_columns = [''year'', ''group_name'', ''count''],
      tbl_rows = [[Some ''2024'', Some ''Veterans'', Some ''n/a'']]\<rparr>"

abbreviation world1 :: "int world" where
  "world1 \<equiv> \<lparr>raw_dir = [''pit_counts.csv'' \<mapsto> counts_csv, ''pit_subpopulations.csv'' \<mapsto> na_csv,
                          ''pit_geography.csv'' \<mapsto> geography_csv],
             budget_parquet = None, db = Map.empty, processed_dir = None, aggregated_dir = no_files\<rparr>"

abbreviation loaded :: "'a engine \<Rightarrow> raw_table option \<Rightarrow> raw_table" where
  "loaded eng f \<equiv>
     (case f of None \<Rightarrow> \<lparr>tbl_columns = [''dummy''], tbl_rows = []\<rparr> | Some t \<Rightarrow> read_csv eng t)"

abbreviation load_line :: "'a engine \<Rightarrow> 'a world \<Rightarrow> string \<Rightarrow> string \<Rightarrow> log_line" where
  "load_line eng w name path \<equiv>
     (case raw_dir w path of
        None \<Rightarrow> WarnNotFound path
      | Some t \<Rightarrow> Loaded name (length (tbl_rows (read_csv eng t))))"

abbreviation after_load :: "'a engine \<Rightarrow> 'a outcome \<Rightarrow> 'a outcome" where
  "after_load eng r \<equiv>
     and_then
       (and_then (and_then (and_then r (export_processed eng)) (build_aggregations eng))
          (build_spending_crossref eng))
       (\<lambda>w'. (([TransformComplete], None), w'))"

section \<open>Properties of the query layer\<close>

subsection \<open>Literals, sorting, maxima and quoting\<close>

lemma sql_eq_iff: "sql_eq v k \<longleftrightarrow> v = Some k"
  by (cases v) (auto simp: sql_eq_def)

lemma int_literal_64: "- (2 ^ 63) \<le> k \<Longrightarrow> k < 2 ^ 63 \<Longrightarrow> int_literal wide k = None"
  by (simp add: int_literal_def)

lemma int_literal_huge: "2 ^ 127 \<le> k \<Longrightarrow> int_literal wide k = Some RangeError"
  by (simp add: int_literal_def)

lemma check_literals_two:
  "check_literals wide [a, b] =
     (case int_literal wide a of Some e \<Rightarrow> Some e | None \<Rightarrow> int_literal wide b)"
  by (simp add: check_literals_def List.map_filter_simps split: option.splits)

lemma sorted_wrt_sort_key: "sorted_wrt (\<lambda>a b. f a \<le> f b) (sort_key f xs)"
  using sorted_sort_key [of f xs] by (simp add: sorted_map)

lemma desc_le_cases:
  "desc a \<le> desc b \<longleftrightarrow>
     (case (a, b) of (Some x, Some y) \<Rightarrow> y \<le> x | (None, Some y) \<Rightarrow> False | _ \<Rightarrow> True)"
  by (cases a; cases b) (auto simp: desc_def nulls_last_def less_eq_prod_def)

lemma asc_le_iff: "asc (Some x) \<le> asc (Some y) \<longleftrightarrow> x \<le> y"
  by (simp add: asc_def nulls_last_def less_eq_prod_def)

lemma literal_value_other: "c \<noteq> quote \<Longrightarrow> literal_value (c # xs) = c # literal_value xs"
  by (cases xs) auto

lemma literal_value_replace_quotes: "literal_value (replace_quotes g) = g"
  by (induction g) (auto simp: literal_value_other)

lemma fold_max_ge: "(x::int) \<le> fold max xs x"
  by (induction xs arbitrary: x) (auto intro: order_trans [OF max.cobounded2])

lemma fold_max_mem: "fold max xs (x::int) \<in> insert x (set xs)"
  by (induction xs arbitrary: x) (auto simp: max_def)

lemma fold_max_upper: "v \<in> set xs \<Longrightarrow> (v::int) \<le> fold max xs x"
  by (induction xs arbitrary: x) (auto intro: order_trans [OF max.cobounded1 fold_max_ge])

lemma set_map_filter_id: "set (List.map_filter (\<lambda>v. v) vs) = {x. Some x \<in> set vs}"
  by (induction vs) (auto simp: List.map_filter_simps split: option.splits)

lemma sql_max_Some:
  assumes "sql_max vs = Some m"
  shows "Some m \<in> set vs" and "Some v \<in> set vs \<Longrightarrow> v \<le> m"
proof -
  obtain x xs where l: "List.map_filter (\<lambda>v. v) vs = x # xs" and m: "m = fold max xs x"
    using assms by (auto simp: sql_max_def split: list.splits)
  have s: "{x. Some x \<in> set vs} = insert x (set xs)"
    using set_map_filter_id [of vs] l by simp
  show "Some m \<in> set vs" using fold_max_mem [of xs x] s m by blast
  show "v \<le> m" if "Some v \<in> set vs"
  proof -
    from that s have "v = x \<or> v \<in> set xs" by blast
    then show ?thesis using m fold_max_ge [of x xs] fold_max_upper [of v xs x] by auto
  qed
qed

lemma holds_eq: "holds w = (\<lambda>r. list_all (\<lambda>c. c r) w)"
  by (simp add: fun_eq_iff holds_def)

subsection \<open>The operations by cases on the files\<close>

lemma close_connect: "close (connect s) = s"
  by (simp add: close_def connect_def)

lemma agg_connect: "agg (connect s) = agg s"
  by (simp add: connect_def)

lemma run_sql_cases:
  "run_sql sql s = (case sql (agg s) of Inl e \<Rightarrow> (Inl e, connect s) | Inr df \<Rightarrow> (Inr df, s))"
  by (simp add: run_sql_def Let_def close_connect agg_connect split: sum.splits)

lemma get_filter_options_cases:
  "get_filter_options s =
     (case pit_trends (agg s) of
        None \<Rightarrow> (Inl IOException, connect s)
      | Some trows \<Rightarrow>
          (Inr \<lparr>years = distinct_not_null (map tr_year trows),
                regions = (case pit_geography (agg s) of
                             None \<Rightarrow> []
                           | Some grows \<Rightarrow> distinct_not_null (map g_region grows))\<rparr>, s))"
proof -
  have "sort (distinct_not_null vs) = distinct_not_null vs" for vs :: "int option list"
    by (simp add: distinct_not_null_def sort_key_id_if_sorted)
  then show ?thesis
    by (simp add: get_filter_options_def read_parquet_def Let_def close_connect agg_connect
        split: option.splits)
qed

lemma get_overview_cases:
  "get_overview fo wide year s =
     (case pit_trends (agg s) of
        None \<Rightarrow> (Inl IOException, connect s)
      | Some rows \<Rightarrow>
         (case (case year of None \<Rightarrow> sql_max (map tr_year rows) | Some y \<Rightarrow> Some y) of
            None \<Rightarrow> (Inl TypeError, connect s)
          | Some y \<Rightarrow>
             (case fetchone_year wide y rows of
                Inl e \<Rightarrow> (Inl e, connect s)
              | Inr current \<Rightarrow>
                 (case fetchone_year wide (y - 1) rows of
                    Inl e \<Rightarrow> (Inl e, connect s)
                  | Inr prior \<Rightarrow> (overview_of fo y current prior, s)))))"
  by (simp add: get_overview_def read_parquet_def py_int_def Let_def close_connect agg_connect
      split: option.splits sum.splits)

lemma get_overview_explicit:
  "pit_trends (agg s) = Some rows \<Longrightarrow> fetchone_year wide y rows = Inr current \<Longrightarrow>
   fetchone_year wide (y - 1) rows = Inr prior \<Longrightarrow>
   get_overview fo wide (Some y) s = (overview_of fo y current prior, s)"
  by (simp add: get_overview_cases)

lemma overview_of_current:
  assumes "tr_total c = Some t" "tr_sheltered c = Some sh" "tr_unsheltered c = Some un"
  shows "overview_of fo y (Some c) prior =
     (case prior of
        None \<Rightarrow> Inr \<lparr>ov_year = y, ov_total = t, ov_sheltered = sh, ov_unsheltered = un,
                      prior_year_total = None, yoy_change = None, yoy_pct = None\<rparr>
      | Some p \<Rightarrow>
         (case tr_total p of
            None \<Rightarrow> Inl TypeError
          | Some pt \<Rightarrow>
             if pt = 0 then Inl ZeroDivisionError
             else Inr \<lparr>ov_year = y, ov_total = t, ov_sheltered = sh, ov_unsheltered = un,
                       prior_year_total = Some pt, yoy_change = Some (t - pt),
                       yoy_pct = Some (round_to fo (times_int fo (truediv fo (t - pt) pt) 100) 1)\<rparr>))"
  using assms by (simp add: overview_of_def py_int_def Let_def split: option.splits)

lemma overview_of_no_IOException: "overview_of fo y c p \<noteq> Inl IOException"
  by (auto simp: overview_of_def py_int_def Let_def split: option.splits)

lemma get_geography_cases:
  "get_geography wide year region s =
     (case pit_geography (agg s) of
        None \<Rightarrow> (Inl IOException, connect s)
      | Some rows \<Rightarrow>
         (case (case year of None \<Rightarrow> sql_max (map g_year rows) | Some y \<Rightarrow> Some y) of
            None \<Rightarrow> (Inl TypeError, connect s)
          | Some y \<Rightarrow>
             (case int_literal wide y of
                Some e \<Rightarrow> (Inl e, connect s)
              | None \<Rightarrow>
                 (Inr (sort_key (\<lambda>r. desc (g_total r))
                        (filter (\<lambda>r. g_year r = Some y \<and>
                            (case region of None \<Rightarrow> True | Some rg \<Rightarrow> rg = [] \<or> g_region r = Some rg)) rows)),
                  s))))"
  by (simp add: get_geography_def read_parquet_def py_int_def Let_def close_connect agg_connect
      holds_eq sql_eq_iff literal_value_replace_quotes split: option.splits)

lemmas eval_overview = get_overview_def connect_def close_def read_parquet_def py_int_def
  fetchone_year_def int_literal_def sql_eq_def overview_of_def float_expr_def Let_def

lemma get_geography_absent_dataset:
  "pit_geography (agg s) = None \<Longrightarrow> get_geography wide year region s = (Inl IOException, connect s)"
  by (simp add: get_geography_cases)

subsection \<open>Overview of a year without a record\<close>

text \<open>
  C3, as the claim states it, fails. The year \<open>2 ^ 127\<close> is formatted into the statement
  and the engine refuses the literal: \<open>get_overview\<close> raises, although the dataset has no
  record of that year. And without the trend file it raises the I/O error of the read.
\<close>

theorem get_overview_absent_year_counterexample:
  "fst (get_overview float_expr all_wide (Some 170141183460469231731687303715884105728)
          (files (Some [trow 2024 (Some 7) (Some 4) (Some 3)]) None None)) = Inl RangeError \<and>
   fst (get_overview float_expr all_wide (Some 1999) (files None None None)) = Inl IOException"
  by (simp add: eval_overview)

text \<open>
  C3, amended. Let the trend dataset be present and hold no record of the year \<open>y\<close>, and
  let the engine accept \<open>y\<close> and \<open>y - 1\<close> as integer literals (it accepts every integer of
  up to 64 bits). Then \<open>get_overview\<close> returns the record with total, sheltered and
  unsheltered 0 and the three comparison fields null; it does not raise.
\<close>

theorem get_overview_absent_year:
  assumes "pit_trends (agg s) = Some rows"
      and "filter (\<lambda>r. tr_year r = Some y) rows = []"
      and "int_literal wide y = None" and "int_literal wide (y - 1) = None"
  shows "fst (get_overview fo wide (Some y) s) =
           Inr \<lparr>ov_year = y, ov_total = 0, ov_sheltered = 0, ov_unsheltered = 0,
                prior_year_total = None, yoy_change = None, yoy_pct = None\<rparr>"
proof -
  have "fetchone_year wide y rows = Inr None"
    using assms(2,3) by (simp add: fetchone_year_def sql_eq_iff find_None_iff filter_empty_conv)
  moreover obtain prior where "fetchone_year wide (y - 1) rows = Inr prior"
    using assms(4) by (simp add: fetchone_year_def)
  ultimately show ?thesis
    using assms(1) by (simp add: get_overview_explicit overview_of_def)
qed

theorem get_overview_absent_year_witness:
  "fst (get_overview float_expr no_wide (Some 1999) (files (Some [trow 2024 (Some 7) (Some 4) (Some 3)]) None None)) =
     Inr \<lparr>ov_year = 1999, ov_total = 0, ov_sheltered = 0, ov_unsheltered = 0,
          prior_year_total = None, yoy_change = None, yoy_pct = None\<rparr>"
  by (rule get_overview_absent_year [where rows = "[trow 2024 (Some 7) (Some 4) (Some 3)]"])
     (simp_all add: int_literal_def)

subsection \<open>Year-over-year comparison\<close>

text \<open>
  C2, as the claim states it, fails: with a record of the year before whose total is 0,
  \<open>get_overview\<close> returns no record, it raises \<open>ZeroDivisionError\<close>.
\<close>

theorem get_overview_yoy_counterexample:
  "fst (get_overview float_expr all_wide (Some 2024)
          (files (Some [trow 2023 (Some 0) (Some 0) (Some 0), trow 2024 (Some 5) (Some 2) (Some 3)])
             None None)) = Inl ZeroDivisionError"
  by (simp add: eval_overview)

text \<open>
  C2, amended. Let the record fetched for year \<open>y\<close> have total \<open>t\<close>, sheltered and
  unsheltered all non-null. If the record fetched for \<open>y - 1\<close> has a non-null total \<open>pt\<close>
  other than 0, \<open>get_overview\<close> returns \<open>yoy_change = t - pt\<close> and
  \<open>yoy_pct = round((t - pt) / pt * 100, 1)\<close>; if there is no record for \<open>y - 1\<close>, it returns
  \<open>prior_year_total\<close>, \<open>yoy_change\<close> and \<open>yoy_pct\<close> null.
\<close>

theorem get_overview_yoy:
  assumes "pit_trends (agg s) = Some rows"
      and "fetchone_year wide y rows = Inr (Some c)"
      and "tr_total c = Some t" and "tr_sheltered c = Some sh" and "tr_unsheltered c = Some un"
  shows "(\<forall>p pt. fetchone_year wide (y - 1) rows = Inr (Some p) \<and> tr_total p = Some pt \<and> pt \<noteq> 0 \<longrightarrow>
            fst (get_overview fo wide (Some y) s) =
              Inr \<lparr>ov_year = y, ov_total = t, ov_sheltered = sh, ov_unsheltered = un,
                   prior_year_total = Some pt, yoy_change = Some (t - pt),
                   yoy_pct = Some (round_to fo (times_int fo (truediv fo (t - pt) pt) 100) 1)\<rparr>) \<and>
         (fetchone_year wide (y - 1) rows = Inr None \<longrightarrow>
            fst (get_overview fo wide (Some y) s) =
              Inr \<lparr>ov_year = y, ov_total = t, ov_sheltered = sh, ov_unsheltered = un,
                   prior_year_total = None, yoy_change = None, yoy_pct = None\<rparr>)"
  using assms by (simp add: get_overview_explicit overview_of_current)

theorem get_overview_yoy_witness:
  "fst (get_overview float_expr no_wide (Some 2024)
          (files (Some [trow 2023 (Some 4) (Some 1) (Some 3), trow 2024 (Some 5) (Some 2) (Some 3)])
             None None)) =
     Inr \<lparr>ov_year = 2024, ov_total = 5, ov_sheltered = 2, ov_unsheltered = 3,
          prior_year_total = Some 4, yoy_change = Some 1,
          yoy_pct = Some (Round (Times (TrueDiv 1 4) 100) 1)\<rparr>"
  using get_overview_yoy
    [where rows = "[trow 2023 (Some 4) (Some 1) (Some 3), trow 2024 (Some 5) (Some 2) (Some 3)]"
       and y = 2024 and t = 5 and sh = 2 and un = 3 and fo = float_expr and wide = no_wide
       and c = "trow 2024 (Some 5) (Some 2) (Some 3)"
       and s = "files (Some [trow 2023 (Some 4) (Some 1) (Some 3), trow 2024 (Some 5) (Some 2) (Some 3)])
                  None None"]
  by (simp add: fetchone_year_def int_literal_def sql_eq_def float_expr_def)

subsection \<open>The division by the prior total\<close>

text \<open>
  C10, as the claim states it, fails: the records of both years are there and the prior
  total is 4, yet \<open>get_overview\<close> fails, on the null sheltered count of the year asked
  for (\<open>int(None)\<close>).
\<close>

theorem get_overview_division_counterexample:
  "fst (get_overview float_expr all_wide (Some 2024)
          (files (Some [trow 2023 (Some 4) (Some 1) (Some 3), trow 2024 (Some 5) None (Some 3)])
             None None)) = Inl TypeError"
  by (simp add: eval_overview)

text \<open>
  C10, amended. Let the records fetched for \<open>y\<close> and \<open>y - 1\<close> both exist, the first with
  total, sheltered and unsheltered non-null, the second with a non-null total \<open>pt\<close>. Then
  \<open>get_overview\<close> returns a record if and only if \<open>pt\<close> is not 0, and for \<open>pt = 0\<close> it
  fails with \<open>ZeroDivisionError\<close>: the division is not guarded.
\<close>

theorem get_overview_division:
  assumes "pit_trends (agg s) = Some rows"
      and "fetchone_year wide y rows = Inr (Some c)"
      and "tr_total c = Some t" and "tr_sheltered c = Some sh" and "tr_unsheltered c = Some un"
      and "fetchone_year wide (y - 1) rows = Inr (Some p)" and "tr_total p = Some pt"
  shows "((\<exists>ov. fst (get_overview fo wide (Some y) s) = Inr ov) \<longleftrightarrow> pt \<noteq> 0) \<and>
         (pt = 0 \<longrightarrow> fst (get_overview fo wide (Some y) s) = Inl ZeroDivisionError)"
  using assms by (simp add: get_overview_explicit overview_of_current)

theorem get_overview_division_witness:
  "fst (get_overview float_expr no_wide (Some 2024)
          (files (Some [trow 2023 (Some 0) (Some 0) (Some 0), trow 2024 (Some 5) (Some 2) (Some 3)])
             None None)) = Inl ZeroDivisionError \<and>
   (\<exists>ov. fst (get_overview float_expr no_wide (Some 2022)
          (files (Some [trow 2021 (Some 4) (Some 1) (Some 3), trow 2022 (Some 5) (Some 2) (Some 3)])
             None None)) = Inr ov)"
  using get_overview_division
    [where rows = "[trow 2023 (Some 0) (Some 0) (Some 0), trow 2024 (Some 5) (Some 2) (Some 3)]"
       and y = 2024 and t = 5 and sh = 2 and un = 3 and fo = float_expr and pt = 0 and wide = no_wide
       and c = "trow 2024 (Some 5) (Some 2) (Some 3)" and p = "trow 2023 (Some 0) (Some 0) (Some 0)"
       and s = "files (Some [trow 2023 (Some 0) (Some 0) (Some 0), trow 2024 (Some 5) (Some 2) (Some 3)])
                  None None"]
    get_overview_division
    [where rows = "[trow 2021 (Some 4) (Some 1) (Some 3), trow 2022 (Some 5) (Some 2) (Some 3)]"
       and y = 2022 and t = 5 and sh = 2 and un = 3 and fo = float_expr and pt = 4 and wide = no_wide
       and c = "trow 2022 (Some 5) (Some 2) (Some 3)" and p = "trow 2021 (Some 4) (Some 1) (Some 3)"
       and s = "files (Some [trow 2021 (Some 4) (Some 1) (Some 3), trow 2022 (Some 5) (Some 2) (Some 3)])
                  None None"]
  by (simp add: fetchone_year_def int_literal_def sql_eq_def)

subsection \<open>Missing datasets\<close>

text \<open>
  C1, as the claim states it, fails: with the trend file missing, \<open>get_filter_options\<close>,
  \<open>get_overview\<close> and \<open>get_pit_trends\<close> raise the engine's I/O error; none returns an
  empty collection or a zero-filled record.
\<close>

theorem missing_dataset_counterexample:
  "fst (get_filter_options (files None None None)) = Inl IOException \<and>
   fst (get_overview float_expr all_wide (Some 2024) (files None None None)) = Inl IOException \<and>
   fst (get_pit_trends all_wide 2011 2024 (files None None None)) = Inl IOException"
  by (simp add: get_filter_options_cases get_overview_cases get_pit_trends_def run_sql_cases
      read_parquet_def Let_def)

text \<open>
  C1, amended. Only the read of the geography file in \<open>get_filter_options\<close> is guarded:
  with the trend file present and the geography file missing it returns the years and an
  empty list of regions, and does not raise. A missing trend file makes
  \<open>get_filter_options\<close>, \<open>get_overview\<close> and \<open>get_pit_trends\<close> raise the I/O error.
\<close>

theorem missing_dataset:
  "(pit_trends (agg s) = Some trows \<and> pit_geography (agg s) = None \<longrightarrow>
      fst (get_filter_options s) = Inr \<lparr>years = distinct_not_null (map tr_year trows), regions = []\<rparr>) \<and>
   (pit_trends (agg s) = None \<longrightarrow>
      fst (get_filter_options s) = Inl IOException \<and>
      fst (get_overview fo wide year s) = Inl IOException \<and>
      fst (get_pit_trends wide year_min year_max s) = Inl IOException)"
  by (simp add: get_filter_options_cases get_overview_cases get_pit_trends_def run_sql_cases
      read_parquet_def Let_def)

theorem missing_dataset_witness:
  "fst (get_filter_options (files (Some [trow 2024 (Some 7) (Some 4) (Some 3)]) None None)) =
     Inr \<lparr>years = [2024], regions = []\<rparr> \<and>
   fst (get_pit_trends no_wide 2011 2024 (files None None None)) = Inl IOException"
  using missing_dataset
    [where s = "files (Some [trow 2024 (Some 7) (Some 4) (Some 3)]) None None"
       and trows = "[trow 2024 (Some 7) (Some 4) (Some 3)]"]
    missing_dataset [where s = "files None None None" and year_min = 2011 and year_max = 2024
       and fo = float_expr and year = None and wide = no_wide]
  by (simp add: distinct_not_null_def List.map_filter_simps)

subsection \<open>Spending series\<close>

text \<open>
  With the spending file present and both bounds accepted as literals,
  \<open>get_spending_trends\<close> returns exactly the records whose fiscal year lies in the range,
  in ascending order of fiscal year.
\<close>

lemma get_spending_trends_present:
  assumes "homelessness_spending (agg s) = Some rows"
      and "int_literal wide fy_min = None" and "int_literal wide fy_max = None"
  shows "\<exists>out. fst (get_spending_trends wide fy_min fy_max s) = Inr out \<and>
           mset out = filter_mset (\<lambda>r. \<exists>fy. fiscal_year r = Some fy \<and> fy_min \<le> fy \<and> fy \<le> fy_max) (mset rows) \<and>
           sorted_wrt (\<lambda>a b. \<exists>x y. fiscal_year a = Some x \<and> fiscal_year b = Some y \<and> x \<le> y) out"
proof -
  let ?P = "\<lambda>r. sql_ge (fiscal_year r) fy_min \<and> sql_le (fiscal_year r) fy_max"
  let ?out = "sort_key (\<lambda>r. asc (fiscal_year r)) (filter ?P rows)"
  have P: "?P r \<longleftrightarrow> (\<exists>fy. fiscal_year r = Some fy \<and> fy_min \<le> fy \<and> fy \<le> fy_max)" for r
    by (cases "fiscal_year r") (auto simp: sql_ge_def sql_le_def)
  have res: "fst (get_spending_trends wide fy_min fy_max s) = Inr ?out"
    using assms by (simp add: get_spending_trends_def run_sql_cases read_parquet_def check_literals_two)
  have m: "mset ?out = filter_mset (\<lambda>r. \<exists>fy. fiscal_year r = Some fy \<and> fy_min \<le> fy \<and> fy \<le> fy_max) (mset rows)"
    by (simp add: P)
  have "sorted_wrt (\<lambda>a b. asc (fiscal_year a) \<le> asc (fiscal_year b)) ?out"
    by (rule sorted_wrt_sort_key)
  moreover have "\<And>a b. a \<in> set ?out \<Longrightarrow> b \<in> set ?out \<Longrightarrow> asc (fiscal_year a) \<le> asc (fiscal_year b)
      \<Longrightarrow> \<exists>x y. fiscal_year a = Some x \<and> fiscal_year b = Some y \<and> x \<le> y"
    by (auto simp: P asc_le_iff)
  ultimately have "sorted_wrt (\<lambda>a b. \<exists>x y. fiscal_year a = Some x \<and> fiscal_year b = Some y \<and> x \<le> y) ?out"
    by (rule sorted_wrt_mono_rel [rotated])
  with res m show ?thesis by blast
qed

text \<open>
  C6. The claim asks for an empty collection when the spending dataset was never
  produced. The code does not do that: with the default range and no spending file,
  \<open>get_spending_trends\<close> raises the I/O error of the read.
\<close>

theorem get_spending_trends_never_produced:
  "fst (get_spending_trends_default wide (files (Some [trow 2024 (Some 7) (Some 4) (Some 3)]) None None)) =
     Inl IOException"
  by (simp add: get_spending_trends_default_def get_spending_trends_def run_sql_cases read_parquet_def)

subsection \<open>Geography series\<close>

text \<open>
  C7, as the claim states it, fails in four ways. An empty string given as the region
  filter is taken as no filter (\<open>if region:\<close>), and the record of another region comes
  back. Without the geography file the operation raises the I/O error of the read. For the
  year \<open>2 ^ 127\<close> the engine refuses the literal and the operation raises. And with no
  year given and a geography file without rows there is no maximum year, and \<open>int(None)\<close>
  raises \<open>TypeError\<close>.
\<close>

theorem get_geography_result_counterexample:
  "fst (get_geography all_wide (Some 2024) (Some []) (files None (Some [grow 2024 ''North'' (Some 5)]) None)) =
     Inr [grow 2024 ''North'' (Some 5)] \<and>
   fst (get_geography all_wide (Some 2024) None (files (Some [trow 2024 (Some 7) (Some 4) (Some 3)]) None None)) =
     Inl IOException \<and>
   fst (get_geography all_wide (Some 170141183460469231731687303715884105728) None
          (files None (Some [grow 2024 ''North'' (Some 5)]) None)) = Inl RangeError \<and>
   fst (get_geography all_wide None None (files None (Some []) None)) = Inl TypeError"
  by (simp add: get_geography_cases int_literal_def sql_max_def List.map_filter_simps)

text \<open>
  C7, amended. Let the geography file be present. Let \<open>y\<close> be the year given, or, when
  none is given and the file holds at least one non-null year, the greatest year in the
  file; and let the engine accept \<open>y\<close> as an integer literal (it accepts every integer of
  up to 64 bits). Then the result holds exactly the records of year \<open>y\<close>, of the given
  region only when a non-empty region is given, and of every region when the region is the
  empty string or not given; it is ordered by total descending, nulls last; and a year
  without rows gives the empty list. (What happens without the file is left out here.)
\<close>

theorem get_geography_result:
  assumes "pit_geography (agg s) = Some rows"
      and "year = Some y \<or> (year = None \<and> sql_max (map g_year rows) = Some y)"
      and "int_literal wide y = None"
  shows "\<exists>out. fst (get_geography wide year region s) = Inr out \<and>
           mset out = filter_mset (\<lambda>r. g_year r = Some y \<and>
                        (region = None \<or> region = Some [] \<or> g_region r = region)) (mset rows) \<and>
           sorted_wrt (\<lambda>a b. case (g_total a, g_total b) of
                               (Some x, Some z) \<Rightarrow> z \<le> x | (None, Some z) \<Rightarrow> False | _ \<Rightarrow> True) out \<and>
           (year = None \<longrightarrow> (\<exists>r\<in>set rows. g_year r = Some y) \<and> (\<forall>r\<in>set rows. \<forall>v. g_year r = Some v \<longrightarrow> v \<le> y)) \<and>
           ((\<forall>r\<in>set rows. g_year r \<noteq> Some y) \<longrightarrow> out = [])"
proof -
  let ?P = "\<lambda>r. g_year r = Some y \<and> (case region of None \<Rightarrow> True | Some rg \<Rightarrow> rg = [] \<or> g_region r = Some rg)"
  let ?out = "sort_key (\<lambda>r. desc (g_total r)) (filter ?P rows)"
  have res: "fst (get_geography wide year region s) = Inr ?out"
    using assms by (auto simp: get_geography_cases)
  have P: "?P r \<longleftrightarrow> g_year r = Some y \<and> (region = None \<or> region = Some [] \<or> g_region r = region)" for r
    by (auto split: option.splits)
  have m: "mset ?out = filter_mset (\<lambda>r. g_year r = Some y \<and>
             (region = None \<or> region = Some [] \<or> g_region r = region)) (mset rows)"
    by (simp add: P)
  have "sorted_wrt (\<lambda>a b. desc (g_total a) \<le> desc (g_total b)) ?out"
    by (rule sorted_wrt_sort_key)
  then have srt: "sorted_wrt (\<lambda>a b. case (g_total a, g_total b) of
                     (Some x, Some z) \<Rightarrow> z \<le> x | (None, Some z) \<Rightarrow> False | _ \<Rightarrow> True) ?out"
    by (simp add: desc_le_cases)
  have mx: "(\<exists>r\<in>set rows. g_year r = Some y) \<and> (\<forall>r\<in>set rows. \<forall>v. g_year r = Some v \<longrightarrow> v \<le> y)"
    if "year = None"
  proof -
    from that assms(2) have sm: "sql_max (map g_year rows) = Some y" by simp
    have "Some y \<in> set (map g_year rows)" by (rule sql_max_Some(1) [OF sm])
    moreover have "v \<le> y" if "r \<in> set rows" "g_year r = Some v" for r v
      using sql_max_Some(2) [OF sm, of v] that by force
    ultimately show ?thesis by auto
  qed
  have emp: "?out = []" if "\<forall>r\<in>set rows. g_year r \<noteq> Some y"
    using that by (simp add: filter_empty_conv)
  from res m srt mx emp show ?thesis by blast
qed

theorem get_geography_result_witness:
  "fst (get_geography no_wide None (Some ''North'')
          (files None (Some [grow 2023 ''North'' (Some 9), grow 2024 ''South'' (Some 8),
                             grow 2024 ''North'' (Some 5)]) None)) =
     Inr [grow 2024 ''North'' (Some 5)]"
proof -
  have "sql_max (map g_year [grow 2023 ''North'' (Some 9), grow 2024 ''South'' (Some 8),
                             grow 2024 ''North'' (Some 5)]) = Some 2024"
    by (simp add: sql_max_def List.map_filter_simps)
  moreover have "int_literal no_wide 2024 = None"
    by (simp add: int_literal_def)
  ultimately obtain out where
    "fst (get_geography no_wide None (Some ''North'')
          (files None (Some [grow 2023 ''North'' (Some 9), grow 2024 ''South'' (Some 8),
                             grow 2024 ''North'' (Some 5)]) None)) = Inr out"
    and "mset out = filter_mset (\<lambda>r. g_year r = Some 2024 \<and> g_region r = Some ''North'')
           (mset [grow 2023 ''North'' (Some 9), grow 2024 ''South'' (Some 8), grow 2024 ''North'' (Some 5)])"
    using get_geography_result
      [where s = "files None (Some [grow 2023 ''North'' (Some 9), grow 2024 ''South'' (Some 8),
                                    grow 2024 ''North'' (Some 5)]) None"
         and year = None and y = 2024 and region = "Some ''North''" and wide = no_wide]
    by auto
  then show ?thesis by simp
qed

subsection \<open>Connections\<close>

lemma released_get_filter_options:
  "agg (snd (get_filter_options s)) = agg s \<and>
   ((\<exists>r. fst (get_filter_options s) = Inr r) \<longrightarrow> snd (get_filter_options s) = s) \<and>
   (fst (get_filter_options s) = Inl IOException \<longrightarrow> snd (get_filter_options s) = connect s)"
  by (simp add: get_filter_options_cases agg_connect split: option.splits)

lemma released_get_overview:
  "agg (snd (get_overview fo wide year s)) = agg s \<and>
   ((\<exists>r. fst (get_overview fo wide year s) = Inr r) \<longrightarrow> snd (get_overview fo wide year s) = s) \<and>
   (fst (get_overview fo wide year s) = Inl IOException \<longrightarrow> snd (get_overview fo wide year s) = connect s)"
  by (auto simp: get_overview_cases agg_connect overview_of_no_IOException
      split: option.splits sum.splits)

lemma released_get_geography:
  "agg (snd (get_geography wide year region s)) = agg s \<and>
   ((\<exists>r. fst (get_geography wide year region s) = Inr r) \<longrightarrow> snd (get_geography wide year region s) = s) \<and>
   (fst (get_geography wide year region s) = Inl IOException \<longrightarrow>
      snd (get_geography wide year region s) = connect s)"
  by (auto simp: get_geography_cases agg_connect int_literal_def split: option.splits if_splits)

lemma released_run_sql:
  "agg (snd (run_sql sql s)) = agg s \<and>
   ((\<exists>r. fst (run_sql sql s) = Inr r) \<longrightarrow> snd (run_sql sql s) = s) \<and>
   ((\<exists>e. fst (run_sql sql s) = Inl e) \<longrightarrow> snd (run_sql sql s) = connect s)"
  by (simp add: run_sql_cases agg_connect split: sum.splits)

text \<open>
  C8, as the claim states it, fails: when the read raises, the \<open>close\<close> call is not
  reached, and the connection opened by the operation stays open.
\<close>

theorem connection_closed_on_return_counterexample:
  "fst (get_spending_trends all_wide 2021 2026 (files None None None)) = Inl IOException \<and>
   open_cons (snd (get_spending_trends all_wide 2021 2026 (files None None None))) = 1"
  by (simp add: get_spending_trends_def run_sql_def read_parquet_def connect_def Let_def)

text \<open>
  C8, amended. Each of the six operations leaves the aggregated files as they are, and
  on every path on which it returns a result it has closed the connection it opened: the
  state after is the state before. On a path where the read of a file raises, it has
  opened a connection and not closed it.
\<close>

theorem connection_closed_on_return:
  "(agg (snd (get_filter_options s)) = agg s \<and>
    ((\<exists>r. fst (get_filter_options s) = Inr r) \<longrightarrow> snd (get_filter_options s) = s) \<and>
    (fst (get_filter_options s) = Inl IOException \<longrightarrow> snd (get_filter_options s) = connect s)) \<and>
   (agg (snd (get_overview fo wide year s)) = agg s \<and>
    ((\<exists>r. fst (get_overview fo wide year s) = Inr r) \<longrightarrow> snd (get_overview fo wide year s) = s) \<and>
    (fst (get_overview fo wide year s) = Inl IOException \<longrightarrow> snd (get_overview fo wide year s) = connect s)) \<and>
   (agg (snd (get_pit_trends wide year_min year_max s)) = agg s \<and>
    ((\<exists>r. fst (get_pit_trends wide year_min year_max s) = Inr r) \<longrightarrow> snd (get_pit_trends wide year_min year_max s) = s) \<and>
    ((\<exists>e. fst (get_pit_trends wide year_min year_max s) = Inl e) \<longrightarrow> snd (get_pit_trends wide year_min year_max s) = connect s)) \<and>
   (agg (snd (get_subpopulations wide year_min year_max group' s)) = agg s \<and>
    ((\<exists>r. fst (get_subpopulations wide year_min year_max group' s) = Inr r) \<longrightarrow> snd (get_subpopulations wide year_min year_max group' s) = s) \<and>
    ((\<exists>e. fst (get_subpopulations wide year_min year_max group' s) = Inl e) \<longrightarrow> snd (get_subpopulations wide year_min year_max group' s) = connect s)) \<and>
   (agg (snd (get_geography wide year region s)) = agg s \<and>
    ((\<exists>r. fst (get_geography wide year region s) = Inr r) \<longrightarrow> snd (get_geography wide year region s) = s) \<and>
    (fst (get_geography wide year region s) = Inl IOException \<longrightarrow> snd (get_geography wide year region s) = connect s)) \<and>
   (agg (snd (get_spending_trends wide fy_min fy_max s)) = agg s \<and>
    ((\<exists>r. fst (get_spending_trends wide fy_min fy_max s) = Inr r) \<longrightarrow> snd (get_spending_trends wide fy_min fy_max s) = s) \<and>
    ((\<exists>e. fst (get_spending_trends wide fy_min fy_max s) = Inl e) \<longrightarrow> snd (get_spending_trends wide fy_min fy_max s) = connect s))"
proof -
  have 1: "(agg (snd (get_filter_options s)) = agg s \<and>
    ((\<exists>r. fst (get_filter_options s) = Inr r) \<longrightarrow> snd (get_filter_options s) = s) \<and>
    (fst (get_filter_options s) = Inl IOException \<longrightarrow> snd (get_filter_options s) = connect s))"
    by (rule released_get_filter_options)
  have 2: "(agg (snd (get_overview fo wide year s)) = agg s \<and>
    ((\<exists>r. fst (get_overview fo wide year s) = Inr r) \<longrightarrow> snd (get_overview fo wide year s) = s) \<and>
    (fst (get_overview fo wide year s) = Inl IOException \<longrightarrow> snd (get_overview fo wide year s) = connect s))"
    by (rule released_get_overview)
  have 3: "(agg (snd (get_pit_trends wide year_min year_max s)) = agg s \<and>
    ((\<exists>r. fst (get_pit_trends wide year_min year_max s) = Inr r) \<longrightarrow> snd (get_pit_trends wide year_min year_max s) = s) \<and>
    ((\<exists>e. fst (get_pit_trends wide year_min year_max s) = Inl e) \<longrightarrow> snd (get_pit_trends wide year_min year_max s) = connect s))"
    unfolding get_pit_trends_def Let_def by (rule released_run_sql)
  have 4: "(agg (snd (get_subpopulations wide year_min year_max group' s)) = agg s \<and>
    ((\<exists>r. fst (get_subpopulations wide year_min year_max group' s) = Inr r) \<longrightarrow> snd (get_subpopulations wide year_min year_max group' s) = s) \<and>
    ((\<exists>e. fst (get_subpopulations wide year_min year_max group' s) = Inl e) \<longrightarrow> snd (get_subpopulations wide year_min year_max group' s) = connect s))"
    unfolding get_subpopulations_def Let_def by (rule released_run_sql)
  have 5: "(agg (snd (get_geography wide year region s)) = agg s \<and>
    ((\<exists>r. fst (get_geography wide year region s) = Inr r) \<longrightarrow> snd (get_geography wide year region s) = s) \<and>
    (fst (get_geography wide year region s) = Inl IOException \<longrightarrow> snd (get_geography wide year region s) = connect s))"
    by (rule released_get_geography)
  have 6: "(agg (snd (get_spending_trends wide fy_min fy_max s)) = agg s \<and>
    ((\<exists>r. fst (get_spending_trends wide fy_min fy_max s) = Inr r) \<longrightarrow> snd (get_spending_trends wide fy_min fy_max s) = s) \<and>
    ((\<exists>e. fst (get_spending_trends wide fy_min fy_max s) = Inl e) \<longrightarrow> snd (get_spending_trends wide fy_min fy_max s) = connect s))"
    unfolding get_spending_trends_def by (rule released_run_sql)
  show ?thesis
    by (rule conjI [OF 1 conjI [OF 2 conjI [OF 3 conjI [OF 4 conjI [OF 5 6]]]]])
qed

theorem connection_closed_on_return_witness:
  "snd (get_filter_options (files (Some [trow 2024 (Some 7) (Some 4) (Some 3)]) None None)) =
     files (Some [trow 2024 (Some 7) (Some 4) (Some 3)]) None None \<and>
   snd (get_pit_trends no_wide 2011 2024 (files None None None)) = connect (files None None None)"
  using connection_closed_on_return
    [where s = "files (Some [trow 2024 (Some 7) (Some 4) (Some 3)]) None None" and fo = float_expr
       and year = None and region = None and group' = None and fy_min = 2021 and fy_max = 2026
       and year_min = 2011 and year_max = 2024 and wide = no_wide]
    connection_closed_on_return
    [where s = "files None None None" and year_min = 2011 and year_max = 2024 and fo = float_expr
       and year = None and region = None and group' = None and fy_min = 2021 and fy_max = 2026
       and wide = no_wide]
  by (simp add: get_filter_options_cases get_pit_trends_def run_sql_cases read_parquet_def)

section \<open>Properties of the builder\<close>

subsection \<open>The steps\<close>

lemma load_raw_tables_eq:
  "load_raw_tables eng w =
     (([load_line eng w ''raw_pit_counts'' ''pit_counts.csv'',
        load_line eng w ''raw_pit_subpopulations'' ''pit_subpopulations.csv'',
        load_line eng w ''raw_pit_geography'' ''pit_geography.csv''], None),
      w\<lparr>db := (db w)(''raw_pit_counts'' \<mapsto> loaded eng (raw_dir w ''pit_counts.csv''),
                      ''raw_pit_subpopulations'' \<mapsto> loaded eng (raw_dir w ''pit_subpopulations.csv''),
                      ''raw_pit_geography'' \<mapsto> loaded eng (raw_dir w ''pit_geography.csv''))\<rparr>)"
  by (simp add: load_raw_tables_def csv_files_def load_one_def split: option.splits)

lemma from_table_frame [simp]:
  "from_table (w\<lparr>processed_dir := x\<rparr>) name cols = from_table w name cols"
  "from_table (w\<lparr>aggregated_dir := y\<rparr>) name cols = from_table w name cols"
  by (simp_all add: from_table_def)

lemma from_table_Inr: "from_table w name cols = Inr t \<Longrightarrow> db w name = Some t"
  by (auto simp: from_table_def split: option.splits if_splits)

lemmas step_defs = export_processed_def build_aggregations_def copy_pit_trends_def
  copy_pit_subpopulations_def copy_pit_geography_def build_spending_crossref_def and_then_def

lemma after_load_frame:
  "raw_dir (snd (after_load eng ((out, None), w))) = raw_dir w \<and>
   budget_parquet (snd (after_load eng ((out, None), w))) = budget_parquet w \<and>
   db (snd (after_load eng ((out, None), w))) = db w"
  by (simp add: step_defs split: option.splits sum.splits)

lemma after_load_idem:
  "after_load eng ((out, None), snd (after_load eng ((out, None), w))) = after_load eng ((out, None), w)"
  by (simp add: step_defs split: option.splits sum.splits)

lemma after_load_written:
  assumes "snd (fst (after_load eng ((out, None), w))) = None"
  shows "\<exists>t2 t3 t4.
      from_table w ''raw_pit_counts'' [''year'', ''total_homeless'', ''sheltered'', ''unsheltered''] = Inr t2 \<and>
      from_table w ''raw_pit_subpopulations'' [''year'', ''group_name'', ''count''] = Inr t3 \<and>
      from_table w ''raw_pit_geography'' [''year'', ''region'', ''total'', ''sheltered'', ''unsheltered''] = Inr t4 \<and>
      pit_trends (aggregated_dir (snd (after_load eng ((out, None), w)))) = Some (pit_trends_select eng t2) \<and>
      pit_subpopulations (aggregated_dir (snd (after_load eng ((out, None), w)))) =
        Some (pit_subpopulations_select eng t3) \<and>
      pit_geography (aggregated_dir (snd (after_load eng ((out, None), w)))) =
        Some (pit_geography_select eng t4)"
  using assms by (simp add: step_defs split: option.splits sum.splits)

lemma db_reload:
  "(m(a \<mapsto> x, b \<mapsto> y, c \<mapsto> z))(a \<mapsto> x, b \<mapsto> y, c \<mapsto> z) = m(a \<mapsto> x, b \<mapsto> y, c \<mapsto> z)"
  by (auto simp: fun_eq_iff)

lemma transform_eq:
  "transform eng w = after_load eng (load_raw_tables eng w)"
  by (simp add: transform_def)

lemma lower_names [simp]:
  "lower_name ''year'' = ''year''"
  "lower_name ''total_homeless'' = ''total_homeless''"
  "lower_name ''sheltered'' = ''sheltered''"
  "lower_name ''unsheltered'' = ''unsheltered''"
  "lower_name ''chronically_homeless'' = ''chronically_homeless''"
  "lower_name ''veterans'' = ''veterans''"
  "lower_name ''families_persons'' = ''families_persons''"
  "lower_name ''youth_under25'' = ''youth_under25''"
  "lower_name ''first_time_homeless'' = ''first_time_homeless''"
  "lower_name ''group_name'' = ''group_name''"
  "lower_name ''count'' = ''count''"
  "lower_name ''region'' = ''region''"
  "lower_name ''total'' = ''total''"
  "lower_name ''dummy'' = ''dummy''"
  "lower_name ''Year'' = ''year''"
  by (simp_all add: lower_name_def lower_char_def)

lemmas eval_transform = transform_eq load_raw_tables_eq step_defs from_table_def read_csv_def

lemma after_load_error:
  "snd (fst (after_load eng ((out, None), w))) =
     (case from_table w ''raw_pit_counts''
             [''year'', ''total_homeless'', ''sheltered'', ''unsheltered'', ''chronically_homeless'',
              ''veterans'', ''families_persons'', ''youth_under25'', ''first_time_homeless''] of
        Inl e \<Rightarrow> Some e
      | Inr t1 \<Rightarrow>
         (case from_table w ''raw_pit_counts'' [''year'', ''total_homeless'', ''sheltered'', ''unsheltered''] of
            Inl e \<Rightarrow> Some e
          | Inr t2 \<Rightarrow>
             (case from_table w ''raw_pit_subpopulations'' [''year'', ''group_name'', ''count''] of
                Inl e \<Rightarrow> Some e
              | Inr t3 \<Rightarrow>
                 (case from_table w ''raw_pit_geography''
                         [''year'', ''region'', ''total'', ''sheltered'', ''unsheltered''] of
                    Inl e \<Rightarrow> Some e
                  | Inr t4 \<Rightarrow> None))))"
  by (simp add: step_defs split: option.splits sum.splits)

lemma from_table_present:
  "db w name = Some t \<Longrightarrow> from_table w name cols = Inr t \<or> from_table w name cols = Inl BinderException"
  by (simp add: from_table_def)

lemma from_table_dummy:
  assumes "db w name = Some \<lparr>tbl_columns = [''dummy''], tbl_rows = []\<rparr>" and "''year'' \<in> set cols"
  shows "from_table w name cols = Inl BinderException"
proof -
  have "lower_name ''year'' \<in> set (map lower_name cols)"
    using assms(2) by (simp only: set_map) (rule imageI)
  then have "\<not> set (map lower_name cols) \<subseteq> {''dummy''}"
    by auto
  then show ?thesis
    using assms(1) by (simp add: from_table_def)
qed

subsection \<open>Casting raw rows\<close>

text \<open>
  C4, as the claim states it, fails for the subgroup count: in a run that completes, the
  row of the subpopulations file whose year casts and whose count does not is not kept
  with a null count, it is dropped.
\<close>

theorem cast_policy_counterexample:
  "snd (fst (transform engine0 world1)) = None \<and>
   pit_subpopulations (aggregated_dir (snd (transform engine0 world1))) = Some []"
  by (simp add: eval_transform pit_subpopulations_select_def try_cast_def cell_of_def)

text \<open>
  C4, amended. Take a run of the builder that completes, and the rows that
  \<open>read_csv(header=true, ignore_errors=true)\<close> yields for each raw file (it skips the rows
  it cannot parse with the column types it detects). The trend and geography files
  written hold exactly one record for each such row whose year casts, and none for a row
  whose year does not; in such a record each of total, sheltered and unsheltered is the
  cast of the cell, null when the cast fails. The subpopulations file written holds
  exactly one record for each such row whose year and count both cast: a row whose count
  does not cast is dropped.
\<close>

theorem cast_policy:
  assumes "raw_dir w ''pit_counts.csv'' = Some fc"
      and "raw_dir w ''pit_subpopulations.csv'' = Some fs"
      and "raw_dir w ''pit_geography.csv'' = Some fg"
      and "snd (fst (transform eng w)) = None"
  shows "\<exists>ts ss gs.
     pit_trends (aggregated_dir (snd (transform eng w))) = Some ts \<and>
     pit_subpopulations (aggregated_dir (snd (transform eng w))) = Some ss \<and>
     pit_geography (aggregated_dir (snd (transform eng w))) = Some gs \<and>
     mset ts =
       image_mset (\<lambda>row. \<lparr>tr_year = try_cast eng (cell_of (read_csv eng fc) ''year'' row),
                           tr_total = try_cast eng (cell_of (read_csv eng fc) ''total_homeless'' row),
                           tr_sheltered = try_cast eng (cell_of (read_csv eng fc) ''sheltered'' row),
                           tr_unsheltered = try_cast eng (cell_of (read_csv eng fc) ''unsheltered'' row)\<rparr>)
         (filter_mset (\<lambda>row. try_cast eng (cell_of (read_csv eng fc) ''year'' row) \<noteq> None)
            (mset (csv_rows eng fc))) \<and>
     mset gs =
       image_mset (\<lambda>row. \<lparr>g_year = try_cast eng (cell_of (read_csv eng fg) ''year'' row),
                           g_region = cell_of (read_csv eng fg) ''region'' row,
                           g_total = try_cast eng (cell_of (read_csv eng fg) ''total'' row),
                           g_sheltered = try_cast eng (cell_of (read_csv eng fg) ''sheltered'' row),
                           g_unsheltered = try_cast eng (cell_of (read_csv eng fg) ''unsheltered'' row)\<rparr>)
         (filter_mset (\<lambda>row. try_cast eng (cell_of (read_csv eng fg) ''year'' row) \<noteq> None)
            (mset (csv_rows eng fg))) \<and>
     mset ss =
       image_mset (\<lambda>row. \<lparr>sp_year = try_cast eng (cell_of (read_csv eng fs) ''year'' row),
                           sp_group_name = cell_of (read_csv eng fs) ''group_name'' row,
                           sp_count = try_cast eng (cell_of (read_csv eng fs) ''count'' row)\<rparr>)
         (filter_mset (\<lambda>row. try_cast eng (cell_of (read_csv eng fs) ''year'' row) \<noteq> None \<and>
                              try_cast eng (cell_of (read_csv eng fs) ''count'' row) \<noteq> None)
            (mset (csv_rows eng fs)))"
proof -
  obtain out w1 where l: "load_raw_tables eng w = ((out, None), w1)"
    by (simp add: load_raw_tables_eq)
  have db1: "db w1 ''raw_pit_counts'' = Some (read_csv eng fc)"
            "db w1 ''raw_pit_subpopulations'' = Some (read_csv eng fs)"
            "db w1 ''raw_pit_geography'' = Some (read_csv eng fg)"
    using l assms(1-3) by (auto simp: load_raw_tables_eq)
  have ok: "snd (fst (after_load eng ((out, None), w1))) = None"
    using assms(4) by (simp only: transform_eq l)
  from after_load_written [OF ok] obtain t2 t3 t4 where
      f: "from_table w1 ''raw_pit_counts'' [''year'', ''total_homeless'', ''sheltered'', ''unsheltered''] = Inr t2"
         "from_table w1 ''raw_pit_subpopulations'' [''year'', ''group_name'', ''count''] = Inr t3"
         "from_table w1 ''raw_pit_geography'' [''year'', ''region'', ''total'', ''sheltered'', ''unsheltered''] = Inr t4"
      and a: "pit_trends (aggregated_dir (snd (after_load eng ((out, None), w1)))) = Some (pit_trends_select eng t2)"
         "pit_subpopulations (aggregated_dir (snd (after_load eng ((out, None), w1)))) =
            Some (pit_subpopulations_select eng t3)"
         "pit_geography (aggregated_dir (snd (after_load eng ((out, None), w1)))) =
            Some (pit_geography_select eng t4)"
    by blast
  have t: "t2 = read_csv eng fc" "t3 = read_csv eng fs" "t4 = read_csv eng fg"
    using f db1 by (auto dest: from_table_Inr)
  have r: "tbl_rows (read_csv eng f) = csv_rows eng f" for f
    by (simp add: read_csv_def)
  have "pit_trends (aggregated_dir (snd (transform eng w))) = Some (pit_trends_select eng (read_csv eng fc))"
       "pit_subpopulations (aggregated_dir (snd (transform eng w))) =
          Some (pit_subpopulations_select eng (read_csv eng fs))"
       "pit_geography (aggregated_dir (snd (transform eng w))) = Some (pit_geography_select eng (read_csv eng fg))"
    using a t by (simp_all only: transform_eq l)
  then show ?thesis
    by (simp add: pit_trends_select_def pit_geography_select_def pit_subpopulations_select_def r)
qed

theorem cast_policy_witness:
  "pit_geography (aggregated_dir (snd (transform engine0 world1))) =
     Some [\<lparr>g_year = Some 2024, g_region = Some ''North'', g_total = Some 7, g_sheltered = None,
            g_unsheltered = Some 3\<rparr>]"
proof -
  have "snd (fst (transform engine0 world1)) = None"
    by (simp add: eval_transform)
  from cast_policy [where w = world1 and eng = engine0 and fc = counts_csv and fs = na_csv
      and fg = geography_csv, OF _ _ _ this]
  obtain gs where "pit_geography (aggregated_dir (snd (transform engine0 world1))) = Some gs"
    and "mset gs =
       image_mset (\<lambda>row. \<lparr>g_year = try_cast engine0 (cell_of (read_csv engine0 geography_csv) ''year'' row),
                           g_region = cell_of (read_csv engine0 geography_csv) ''region'' row,
                           g_total = try_cast engine0 (cell_of (read_csv engine0 geography_csv) ''total'' row),
                           g_sheltered = try_cast engine0 (cell_of (read_csv engine0 geography_csv) ''sheltered'' row),
                           g_unsheltered = try_cast engine0 (cell_of (read_csv engine0 geography_csv) ''unsheltered'' row)\<rparr>)
         (filter_mset (\<lambda>row. try_cast engine0 (cell_of (read_csv engine0 geography_csv) ''year'' row) \<noteq> None)
            (mset (csv_rows engine0 geography_csv)))"
    by auto
  then show ?thesis
    by (simp add: read_csv_def cell_of_def try_cast_def)
qed

subsection \<open>A missing raw file\<close>

text \<open>
  Whichever of the three CSV files is missing, the run ends in the engine's binder error:
  the table made for it has the single column \<open>dummy\<close>, and the statement that reads it
  names the column \<open>year\<close>.
\<close>

lemma transform_missing_csv:
  assumes "raw_dir w ''pit_counts.csv'' = None \<or> raw_dir w ''pit_subpopulations.csv'' = None \<or>
           raw_dir w ''pit_geography.csv'' = None"
  shows "snd (fst (transform eng w)) = Some BinderException"
proof -
  obtain out w1 where l: "load_raw_tables eng w = ((out, None), w1)"
    by (simp add: load_raw_tables_eq)
  have w1: "w1 = w\<lparr>db := (db w)(''raw_pit_counts'' \<mapsto> loaded eng (raw_dir w ''pit_counts.csv''),
                      ''raw_pit_subpopulations'' \<mapsto> loaded eng (raw_dir w ''pit_subpopulations.csv''),
                      ''raw_pit_geography'' \<mapsto> loaded eng (raw_dir w ''pit_geography.csv''))\<rparr>"
    using l by (simp add: load_raw_tables_eq)
  have db1: "db w1 ''raw_pit_counts'' = Some (loaded eng (raw_dir w ''pit_counts.csv''))"
            "db w1 ''raw_pit_subpopulations'' = Some (loaded eng (raw_dir w ''pit_subpopulations.csv''))"
            "db w1 ''raw_pit_geography'' = Some (loaded eng (raw_dir w ''pit_geography.csv''))"
    unfolding w1 by simp_all
  define c9 where "c9 = from_table w1 ''raw_pit_counts''
             [''year'', ''total_homeless'', ''sheltered'', ''unsheltered'', ''chronically_homeless'',
              ''veterans'', ''families_persons'', ''youth_under25'', ''first_time_homeless'']"
  define c4 where "c4 = from_table w1 ''raw_pit_counts'' [''year'', ''total_homeless'', ''sheltered'', ''unsheltered'']"
  define c3 where "c3 = from_table w1 ''raw_pit_subpopulations'' [''year'', ''group_name'', ''count'']"
  define c5 where "c5 = from_table w1 ''raw_pit_geography'' [''year'', ''region'', ''total'', ''sheltered'', ''unsheltered'']"
  have e: "snd (fst (after_load eng ((out, None), w1))) =
     (case c9 of Inl e \<Rightarrow> Some e | Inr t1 \<Rightarrow>
        (case c4 of Inl e \<Rightarrow> Some e | Inr t2 \<Rightarrow>
           (case c3 of Inl e \<Rightarrow> Some e | Inr t3 \<Rightarrow>
              (case c5 of Inl e \<Rightarrow> Some e | Inr t4 \<Rightarrow> None))))"
    unfolding c9_def c4_def c3_def c5_def by (rule after_load_error)
  have p9: "(\<exists>t. c9 = Inr t) \<or> c9 = Inl BinderException"
    unfolding c9_def using from_table_present [OF db1(1)] by blast
  have p4: "(\<exists>t. c4 = Inr t) \<or> c4 = Inl BinderException"
    unfolding c4_def using from_table_present [OF db1(1)] by blast
  have p3: "(\<exists>t. c3 = Inr t) \<or> c3 = Inl BinderException"
    unfolding c3_def using from_table_present [OF db1(2)] by blast
  have p5: "(\<exists>t. c5 = Inr t) \<or> c5 = Inl BinderException"
    unfolding c5_def using from_table_present [OF db1(3)] by blast
  have m: "c9 = Inl BinderException \<or> c3 = Inl BinderException \<or> c5 = Inl BinderException"
    using assms
  proof (elim disjE)
    assume a: "raw_dir w ''pit_counts.csv'' = None"
    have "c9 = Inl BinderException"
      unfolding c9_def by (rule from_table_dummy) (use db1(1) a in simp_all)
    then show ?thesis by simp
  next
    assume a: "raw_dir w ''pit_subpopulations.csv'' = None"
    have "c3 = Inl BinderException"
      unfolding c3_def by (rule from_table_dummy) (use db1(2) a in simp_all)
    then show ?thesis by simp
  next
    assume a: "raw_dir w ''pit_geography.csv'' = None"
    have "c5 = Inl BinderException"
      unfolding c5_def by (rule from_table_dummy) (use db1(3) a in simp_all)
    then show ?thesis by simp
  qed
  have "snd (fst (after_load eng ((out, None), w1))) = Some BinderException"
    unfolding e using p9 p4 p3 p5 m by (auto split: sum.splits)
  then show ?thesis
    by (simp only: transform_eq l)
qed

text \<open>
  C5. The claim asks that a run with a raw CSV file missing still writes the derived
  dataset of that file and completes. The code does not: without
  \<open>pit_geography.csv\<close> the run prints the warning, writes the trend and subpopulation
  files, and then raises; no geography file is written and the spending step and the
  final line are not reached.
\<close>

theorem transform_missing_geography_csv:
  "fst (transform engine0 world0) =
     ([Loaded ''raw_pit_counts'' 1, Loaded ''raw_pit_subpopulations'' 1, WarnNotFound ''pit_geography.csv'',
       ExportedProcessed, Agg ''pit_trends'', Agg ''pit_subpopulations''], Some BinderException) \<and>
   pit_geography (aggregated_dir (snd (transform engine0 world0))) = None"
  by (simp add: eval_transform)

subsection \<open>Running the builder again\<close>

text \<open>
  C9. A run leaves the raw files and the budget file as they are, and a second run, on the
  files and the database the first one left, prints the same lines, ends the same way and
  leaves every file as the first run left it.
\<close>

theorem transform_idempotent:
  "raw_dir (snd (transform eng w)) = raw_dir w \<and>
   budget_parquet (snd (transform eng w)) = budget_parquet w \<and>
   transform eng (snd (transform eng w)) = transform eng w"
proof -
  obtain out w1 where l: "load_raw_tables eng w = ((out, None), w1)"
    by (simp add: load_raw_tables_eq)
  let ?w2 = "snd (after_load eng ((out, None), w1))"
  have w1: "raw_dir w1 = raw_dir w" "db w1 =
      (db w)(''raw_pit_counts'' \<mapsto> loaded eng (raw_dir w ''pit_counts.csv''),
             ''raw_pit_subpopulations'' \<mapsto> loaded eng (raw_dir w ''pit_subpopulations.csv''),
             ''raw_pit_geography'' \<mapsto> loaded eng (raw_dir w ''pit_geography.csv''))"
    and b1: "budget_parquet w1 = budget_parquet w"
    and out: "out = [load_line eng w ''raw_pit_counts'' ''pit_counts.csv'',
        load_line eng w ''raw_pit_subpopulations'' ''pit_subpopulations.csv'',
        load_line eng w ''raw_pit_geography'' ''pit_geography.csv'']"
    using l by (auto simp: load_raw_tables_eq)
  have fr: "raw_dir ?w2 = raw_dir w" "db ?w2 = db w1"
    and b2: "budget_parquet ?w2 = budget_parquet w"
    using after_load_frame [where eng = eng and out = out and w = w1] w1 b1 by simp_all
  have "load_raw_tables eng ?w2 = ((out, None), ?w2\<lparr>db := db ?w2\<rparr>)"
    by (simp add: load_raw_tables_eq fr w1(2) db_reload out [symmetric])
  then have "load_raw_tables eng ?w2 = ((out, None), ?w2)"
    by simp
  then have "transform eng ?w2 = after_load eng ((out, None), ?w2)"
    by (simp only: transform_eq)
  also have "\<dots> = after_load eng ((out, None), w1)"
    by (rule after_load_idem)
  finally have "transform eng (snd (transform eng w)) = transform eng w"
    by (simp only: transform_eq l)
  moreover have "raw_dir (snd (transform eng w)) = raw_dir w"
    using fr(1) by (simp only: transform_eq l)
  moreover have "budget_parquet (snd (transform eng w)) = budget_parquet w"
    using b2 by (simp only: transform_eq l)
  ultimately show ?thesis by blast
qed

end
